theory Spec2Isabelle
  imports Main "HOL-Library.AList" "HOL-Library.Sublist"
begin

section \<open>Data model of the chat controller (ChatContext.jsx)\<close>

text \<open>
  A conversation and a message are plain JavaScript objects. The field \<open>id\<close> of both is
  written \<open>conv_id\<close> / \<open>msg_id\<close>, the two \<open>timestamp\<close> fields \<open>conv_timestamp\<close> /
  \<open>msg_timestamp\<close>. Optional fields (\<open>language\<close>, \<open>feedback\<close>) are options; an absent
  \<open>isError\<close> is \<open>False\<close>. The sender is the string the code compares with
  \<open>"user"\<close> and \<open>"ai"\<close>.
\<close>

record conversation =
  conv_id :: string
  title :: string
  conv_timestamp :: string
  userId :: "string option"

record message =
  msg_id :: string
  content :: string
  sender :: string
  msg_timestamp :: string
  language :: "string option"
  feedback :: "string option"
  isError :: bool

text \<open>
  What a localStorage slot holds: a JSON array of conversations, a JSON array of messages,
  or a bare string (the active conversation id, the preferred language).
\<close>

datatype stored =
    Conversations "conversation list"
  | Messages "message list"
  | Text string

text \<open>
  The state of \<open>ChatProvider\<close>: its seven \<open>useState\<close> cells, the \<open>currentUser\<close> it reads
  from the auth context (the user's id, \<open>None\<close> when signed out), the browser's
  localStorage as an ordered list of key/value slots, and the abort controllers on which
  \<open>abort()\<close> has been called. An abort controller is identified by a number.
\<close>

record chat_state =
  messages :: "message list"
  conversations :: "conversation list"
  activeConversation :: "conversation option"
  isLoading :: bool
  lastUserMessage :: string
  abortController :: "nat option"
  processingConversationId :: "string option"
  currentUser :: "string option"
  localStorage :: "(string \<times> stored) list"
  aborted :: "nat list"

datatype error = TypeError

text \<open>
  An \<open>async\<close> handler runs up to its \<open>await\<close> and is resumed when the reply operation
  settles. \<open>pending\<close> holds the arguments handed to \<open>sendChatMessage\<close> and the local
  constants the continuation still reads.
\<close>

record pending =
  p_conversationId :: string
  p_content :: string
  p_history :: "message list"
  p_language :: string
  p_signal :: nat
  p_updatedMessages :: "message list"

datatype begun =
    Threw error chat_state
  | Returned chat_state
  | Awaiting pending chat_state

text \<open>
  How the awaited reply settles: it resolves with \<open>response.message\<close>, or rejects with
  an error of the given \<open>name\<close>.
\<close>

datatype reply = Resolved string | Rejected string

section \<open>Storage\<close>

definition getItem :: "string \<Rightarrow> chat_state \<Rightarrow> stored option" where
  "getItem key s = map_of (localStorage s) key"

definition setItem :: "string \<Rightarrow> stored \<Rightarrow> chat_state \<Rightarrow> chat_state" where
  "setItem key v s = s\<lparr>localStorage := AList.update key v (localStorage s)\<rparr>"

definition removeItem :: "string \<Rightarrow> chat_state \<Rightarrow> chat_state" where
  "removeItem key s = s\<lparr>localStorage := AList.delete key (localStorage s)\<rparr>"

text \<open>
  Modelled from the spec: \<open>saveToLocalStorage\<close> and \<open>getFromLocalStorage\<close> of
  \<open>utils/localStorage\<close>, which the controller imports and which is not among the sources.
  The spec describes the storage adapter as synchronous get/set over string-keyed
  JSON-serializable values, a missing or unreadable value being treated as absent. The
  serialisation is not modelled: a slot holds the value itself.
\<close>

definition saveToLocalStorage :: "string \<Rightarrow> stored \<Rightarrow> chat_state \<Rightarrow> chat_state" where
  "saveToLocalStorage key v s = setItem key v s"

definition getFromLocalStorage :: "string \<Rightarrow> chat_state \<Rightarrow> stored option" where
  "getFromLocalStorage key s = getItem key s"

text \<open>
  \<open>getFromLocalStorage(storageKey) || []\<close> at a message key. The program writes only
  message arrays under such a key; any other content reads as the empty default.
\<close>

definition storedMessagesAt :: "string \<Rightarrow> chat_state \<Rightarrow> message list" where
  "storedMessagesAt key s =
     (case getFromLocalStorage key s of Some (Messages ms) \<Rightarrow> ms | _ \<Rightarrow> [])"

text \<open>The three template strings that build storage keys.\<close>

definition messagesKey :: "string \<Rightarrow> string \<Rightarrow> string" where
  "messagesKey uid conversationId = uid @ ''_messages_'' @ conversationId"

definition conversationsKey :: "string \<Rightarrow> string" where
  "conversationsKey uid = uid @ ''_conversations''"

definition activeConversationKey :: "string \<Rightarrow> string" where
  "activeConversationKey uid = uid @ ''_activeConversation''"

section \<open>Handlers\<close>

text \<open>
  Every handler is a closure created by one render of \<open>ChatProvider\<close>. The state
  variables it mentions (\<open>messages\<close>, \<open>conversations\<close>, \<open>activeConversation\<close>,
  \<open>abortController\<close>, \<open>processingConversationId\<close>, \<open>currentUser\<close>) are \<open>const\<close>
  bindings of that render: a \<open>setX\<close> call queues the next value and does not change
  them, and the continuation of an \<open>async\<close> handler still reads the bindings of the
  render that created it. Each handler therefore takes the closure \<open>c\<close> (the state as
  rendered when the handler was created), from which it reads, and the live state \<open>s\<close>,
  which the setters and localStorage calls update. A handler invoked from the current
  render has \<open>c = s\<close>.
\<close>

definition activeId :: "chat_state \<Rightarrow> string option" where
  \<comment> \<open>\<open>activeConversation?.id\<close>\<close>
  "activeId c = map_option conv_id (activeConversation c)"

definition abort :: "nat \<Rightarrow> chat_state \<Rightarrow> chat_state" where
  "abort controller s = s\<lparr>aborted := controller # aborted s\<rparr>"

definition setActiveConversationWithStorage ::
  "chat_state \<Rightarrow> conversation \<Rightarrow> chat_state \<Rightarrow> chat_state" where
  "setActiveConversationWithStorage c conversation s =
     (if activeId c = Some (conv_id conversation) then s
      else
        let s1 = s\<lparr>activeConversation := Some conversation\<rparr>
        in case currentUser c of
             Some uid \<Rightarrow> setItem (activeConversationKey uid) (Text (conv_id conversation)) s1
           | None \<Rightarrow> s1)"

text \<open>
  \<open>loadConversationMessages\<close>: with no current user, \<open>currentUser.id\<close> throws inside the
  \<open>try\<close> and the \<open>catch\<close> only logs.
\<close>

definition loadConversationMessages :: "chat_state \<Rightarrow> string \<Rightarrow> chat_state \<Rightarrow> chat_state" where
  "loadConversationMessages c conversationId s =
     (case currentUser c of
        None \<Rightarrow> s
      | Some uid \<Rightarrow>
          let storedMessages = storedMessagesAt (messagesKey uid conversationId) s;
              s1 = s\<lparr>messages := storedMessages\<rparr>;
              userMessages = filter (\<lambda>msg. sender msg = ''user'') storedMessages
          in if length userMessages > 0
             then s1\<lparr>lastUserMessage := content (last userMessages)\<rparr>
             else s1\<lparr>lastUserMessage := ''''\<rparr>)"

text \<open>
  The effect with dependencies \<open>[activeConversation, processingConversationId]\<close>, and its
  run after a render whose dependencies differ from those of the previous render
  \<open>prev\<close>. The effect is a closure of the new render. The dependencies are compared
  by value here; React compares objects by identity, so it also runs the effect after an
  update that stores a new object equal to the old one.
\<close>

definition messagesEffect :: "chat_state \<Rightarrow> chat_state \<Rightarrow> chat_state" where
  "messagesEffect c s =
     (case activeConversation c of
        Some a \<Rightarrow>
          (loadConversationMessages c (conv_id a) s)
            \<lparr>isLoading := (processingConversationId c = Some (conv_id a))\<rparr>
      | None \<Rightarrow> s\<lparr>messages := []\<rparr>)"

definition afterRender :: "chat_state \<Rightarrow> chat_state \<Rightarrow> chat_state" where
  "afterRender prev s =
     (if activeConversation s = activeConversation prev
         \<and> processingConversationId s = processingConversationId prev
      then s else messagesEffect s s)"

text \<open>
  \<open>createNewConversation(baseConversations = null)\<close>; \<open>uuidv4()\<close> and the clock are the
  arguments \<open>newId\<close> and \<open>now\<close>. An array, also the empty one, is truthy, so
  \<open>baseConversations || conversations\<close> falls back only for \<open>null\<close>.
\<close>

definition createNewConversation ::
  "chat_state \<Rightarrow> conversation list option \<Rightarrow> string \<Rightarrow> string \<Rightarrow> chat_state \<Rightarrow> chat_state" where
  "createNewConversation c baseConversations newId now s =
     (let newConversation =
            \<lparr>conv_id = newId, title = ''New Conversation'', conv_timestamp = now,
             userId = currentUser c\<rparr>;
          updatedConversations =
            newConversation #
              (case baseConversations of Some base \<Rightarrow> base | None \<Rightarrow> conversations c);
          s1 = s\<lparr>conversations := updatedConversations,
                 activeConversation := Some newConversation,
                 messages := [],
                 lastUserMessage := ''''\<rparr>
      in case currentUser c of
           Some uid \<Rightarrow>
             saveToLocalStorage (conversationsKey uid) (Conversations updatedConversations) s1
         | None \<Rightarrow> s1)"

text \<open>The title expression of \<open>updateConversationTitle\<close>.\<close>

definition titleOf :: "string \<Rightarrow> string" where
  "titleOf firstMessage =
     (if length firstMessage > 30 then take 30 firstMessage @ ''...'' else firstMessage)"

text \<open>
  \<open>updateConversationTitle\<close>. The updater \<open>(prev) => ({ ...prev, title })\<close> is applied to
  the live value of \<open>activeConversation\<close>; it runs only when the closure's active
  conversation is the one renamed. One corner is not represented: were the live value
  \<open>null\<close> at that point (the closure stale, the active conversation removed since),
  the updater would store an object with a title and no other field, which
  \<open>conversation\<close> cannot express; the definition keeps \<open>None\<close> there. No statement
  below reads \<open>activeConversation\<close> in such a state.
\<close>

definition updateConversationTitle ::
  "chat_state \<Rightarrow> string \<Rightarrow> string \<Rightarrow> chat_state \<Rightarrow> chat_state" where
  "updateConversationTitle c conversationId firstMessage s =
     (let newTitle = titleOf firstMessage;
          updatedConversations =
            map (\<lambda>conv. if conv_id conv = conversationId then conv\<lparr>title := newTitle\<rparr> else conv)
              (conversations c);
          s1 = s\<lparr>conversations := updatedConversations\<rparr>;
          s2 = (if activeId c = Some conversationId
                then s1\<lparr>activeConversation :=
                          map_option (\<lambda>prev. prev\<lparr>title := newTitle\<rparr>) (activeConversation s1)\<rparr>
                else s1)
      in case currentUser c of
           Some uid \<Rightarrow>
             saveToLocalStorage (conversationsKey uid) (Conversations updatedConversations) s2
         | None \<Rightarrow> s2)"

definition stopResponse :: "chat_state \<Rightarrow> chat_state \<Rightarrow> chat_state" where
  "stopResponse c s =
     (case abortController c of
        Some controller \<Rightarrow>
          (abort controller s)
            \<lparr>isLoading := False, abortController := None, processingConversationId := None\<rparr>
      | None \<Rightarrow> s)"

text \<open>\<open>localStorage.getItem("preferredLanguage") || "en"\<close>: absent or empty gives \<open>"en"\<close>.\<close>

definition preferredLanguageOf :: "chat_state \<Rightarrow> string" where
  "preferredLanguageOf s =
     (case getItem ''preferredLanguage'' s of
        Some (Text l) \<Rightarrow> if l = [] then ''en'' else l
      | _ \<Rightarrow> ''en'')"

text \<open>
  The \<open>catch\<close> and \<open>finally\<close> blocks of \<open>sendMessage\<close> and \<open>regenerateResponse\<close>. The
  two \<open>catch\<close> blocks differ only in the apology text, the two \<open>finally\<close> blocks are the
  same. \<open>errorName\<close> is \<open>error.name\<close>; \<open>currentConversationId\<close> is the handler's local
  constant.
\<close>

definition catchBlock ::
  "chat_state \<Rightarrow> string \<Rightarrow> string \<Rightarrow> string \<Rightarrow> string \<Rightarrow> string \<Rightarrow> chat_state \<Rightarrow> chat_state" where
  "catchBlock c currentConversationId apology errorName errId errTime s =
     (if errorName \<noteq> ''AbortError'' then
        let errorMessage =
              \<lparr>msg_id = errId, content = apology, sender = ''ai'', msg_timestamp = errTime,
               language = None, feedback = None, isError = True\<rparr>
        in case currentUser c of
             Some uid \<Rightarrow>
               let storageKey = messagesKey uid currentConversationId;
                   storedMessages = storedMessagesAt storageKey s;
                   updatedMessages = storedMessages @ [errorMessage];
                   s1 = saveToLocalStorage storageKey (Messages updatedMessages) s
               in if activeId c = Some currentConversationId
                  then s1\<lparr>messages := updatedMessages\<rparr> else s1
           | None \<Rightarrow> s
      else s)"

definition finallyBlock :: "chat_state \<Rightarrow> string \<Rightarrow> chat_state \<Rightarrow> chat_state" where
  "finallyBlock c currentConversationId s =
     (let s1 = s\<lparr>processingConversationId := None, abortController := None\<rparr>
      in if activeId c = Some currentConversationId then s1\<lparr>isLoading := False\<rparr> else s1)"

text \<open>
  The part of \<open>sendMessage\<close> and of \<open>regenerateResponse\<close> after a resolved \<open>await\<close>:
  the new assistant message is appended to the handler's \<open>updatedMessages\<close>, the
  conversation's timestamp is bumped in the closure's \<open>conversations\<close>, both are saved.
  \<open>regenerateResponse\<close> also sets \<open>lastUserMessage\<close> inside the last \<open>if\<close>.
\<close>

definition resolvedBlock ::
  "chat_state \<Rightarrow> pending \<Rightarrow> bool \<Rightarrow> string \<Rightarrow> string \<Rightarrow> string \<Rightarrow> string \<Rightarrow> chat_state \<Rightarrow> chat_state" where
  "resolvedBlock c p setsLastUserMessage responseMessage aiId aiTime convTime s =
     (let currentConversationId = p_conversationId p;
          aiMessage =
            \<lparr>msg_id = aiId, content = responseMessage, sender = ''ai'', msg_timestamp = aiTime,
             language = Some (p_language p), feedback = None, isError = False\<rparr>;
          finalMessages = p_updatedMessages p @ [aiMessage];
          updatedConversations =
            map (\<lambda>conv. if conv_id conv = currentConversationId
                        then conv\<lparr>conv_timestamp := convTime\<rparr> else conv)
              (conversations c);
          s1 = s\<lparr>conversations := updatedConversations\<rparr>;
          s2 = (case currentUser c of
                  Some uid \<Rightarrow>
                    saveToLocalStorage (conversationsKey uid)
                      (Conversations updatedConversations) s1
                | None \<Rightarrow> s1);
          s3 = (case currentUser c of
                  Some uid \<Rightarrow>
                    saveToLocalStorage (messagesKey uid currentConversationId)
                      (Messages finalMessages) s2
                | None \<Rightarrow> s2)
      in if activeId c = Some currentConversationId
         then (if setsLastUserMessage
               then s3\<lparr>messages := finalMessages, lastUserMessage := p_content p\<rparr>
               else s3\<lparr>messages := finalMessages\<rparr>)
         else s3)"

text \<open>
  \<open>sendMessage\<close> up to its \<open>await\<close>. With no active conversation the handler calls
  \<open>createNewConversation()\<close> and then reads \<open>activeConversation.id\<close> from its own
  binding, which is still \<open>null\<close>: a TypeError outside the \<open>try\<close>.
\<close>

definition sendMessage_begin ::
  "chat_state \<Rightarrow> string \<Rightarrow> string \<Rightarrow> string \<Rightarrow> nat \<Rightarrow> string \<Rightarrow> string \<Rightarrow> chat_state \<Rightarrow> begun" where
  "sendMessage_begin c userText newConvId newConvTime controller msgId msgTime s =
     (let s0 = (if activeConversation c = None
                then createNewConversation c None newConvId newConvTime s else s)
      in case activeConversation c of
           None \<Rightarrow> Threw TypeError s0
         | Some a \<Rightarrow>
             let currentConversationId = conv_id a;
                 s1 = s0\<lparr>processingConversationId := Some currentConversationId,
                         abortController := Some controller,
                         isLoading := True,
                         lastUserMessage := userText\<rparr>;
                 preferredLanguage = preferredLanguageOf s1;
                 userMessage =
                   \<lparr>msg_id = msgId, content = userText, sender = ''user'',
                    msg_timestamp = msgTime, language = None, feedback = None,
                    isError = False\<rparr>;
                 currentMessages = messages c;
                 updatedMessages = currentMessages @ [userMessage];
                 s2 = (if length currentMessages = 0
                       then updateConversationTitle c currentConversationId userText s1
                       else s1);
                 s3 = (case currentUser c of
                         Some uid \<Rightarrow>
                           saveToLocalStorage (messagesKey uid currentConversationId)
                             (Messages updatedMessages) s2
                       | None \<Rightarrow> s2);
                 s4 = (if activeId c = Some currentConversationId
                       then s3\<lparr>messages := updatedMessages\<rparr> else s3)
             in Awaiting
                  \<lparr>p_conversationId = currentConversationId, p_content = userText,
                   p_history = currentMessages, p_language = preferredLanguage,
                   p_signal = controller, p_updatedMessages = updatedMessages\<rparr>
                  s4)"

text \<open>
  \<open>sendMessage\<close> from the settled \<open>await\<close> to its end, run on the live state \<open>s\<close> of
  that moment with the closure \<open>c\<close> of the render that started the send.
\<close>

definition sendMessage_resume ::
  "chat_state \<Rightarrow> pending \<Rightarrow> reply \<Rightarrow> string \<Rightarrow> string \<Rightarrow> string \<Rightarrow> chat_state \<Rightarrow> chat_state" where
  "sendMessage_resume c p r newId now convTime s =
     finallyBlock c (p_conversationId p)
       (case r of
          Resolved responseMessage \<Rightarrow>
            resolvedBlock c p False responseMessage newId now convTime s
        | Rejected errorName \<Rightarrow>
            catchBlock c (p_conversationId p)
              ''Sorry, I couldn't process your request. Please try again.''
              errorName newId now s)"

text \<open>\<open>Array.prototype.findIndex\<close>, with \<open>None\<close> for \<open>-1\<close>.\<close>

fun findIndex :: "('a \<Rightarrow> bool) \<Rightarrow> 'a list \<Rightarrow> nat option" where
  "findIndex P [] = None"
| "findIndex P (x # xs) = (if P x then Some 0 else map_option Suc (findIndex P xs))"

text \<open>
  The backward scan of \<open>regenerateResponse\<close>: \<open>userMessageBefore ms n\<close> starts at index
  \<open>n - 1\<close> and steps down while the sender is not \<open>"user"\<close>; \<open>None\<close> is the exit with
  \<open>userMessageIndex < 0\<close>.
\<close>

fun userMessageBefore :: "message list \<Rightarrow> nat \<Rightarrow> nat option" where
  "userMessageBefore ms 0 = None"
| "userMessageBefore ms (Suc i) =
     (if sender (ms ! i) \<noteq> ''user'' then userMessageBefore ms i else Some i)"

text \<open>
  \<open>regenerateResponse\<close> up to its \<open>await\<close>. The \<open>throw\<close> for a missing user message is
  inside the \<open>try\<close>, so the handler's own \<open>catch\<close> and \<open>finally\<close> run and the handler
  returns normally. \<open>errId\<close> and \<open>errTime\<close> are the \<open>uuidv4()\<close> and the clock of that
  \<open>catch\<close>.
\<close>

definition regenerateResponse_begin ::
  "chat_state \<Rightarrow> string \<Rightarrow> nat \<Rightarrow> string \<Rightarrow> string \<Rightarrow> chat_state \<Rightarrow> begun" where
  "regenerateResponse_begin c messageId controller errId errTime s =
     (case findIndex (\<lambda>msg. msg_id msg = messageId) (messages c) of
        None \<Rightarrow> Returned s
      | Some messageIndex \<Rightarrow>
          if sender (messages c ! messageIndex) \<noteq> ''ai'' then Returned s
          else
            case activeConversation c of
              None \<Rightarrow> Threw TypeError s
            | Some a \<Rightarrow>
                let currentConversationId = conv_id a;
                    s1 = s\<lparr>processingConversationId := Some currentConversationId,
                           abortController := Some controller,
                           isLoading := True\<rparr>
                in case userMessageBefore (messages c) messageIndex of
                     None \<Rightarrow>
                       Returned
                         (finallyBlock c currentConversationId
                            (catchBlock c currentConversationId
                               ''Sorry, I couldn't regenerate a response. Please try again.''
                               ''Error'' errId errTime s1))
                   | Some userMessageIndex \<Rightarrow>
                       let userMessageContent = content (messages c ! userMessageIndex);
                           updatedMessages =
                             (if int messageIndex < int (length (messages c)) - 1
                              then take messageIndex (messages c)
                              else filter (\<lambda>msg. msg_id msg \<noteq> messageId) (messages c));
                           s2 = (case currentUser c of
                                   Some uid \<Rightarrow>
                                     saveToLocalStorage
                                       (messagesKey uid currentConversationId)
                                       (Messages updatedMessages) s1
                                 | None \<Rightarrow> s1);
                           s3 = (if activeId c = Some currentConversationId
                                 then s2\<lparr>messages := updatedMessages\<rparr> else s2);
                           preferredLanguage = preferredLanguageOf s3
                       in Awaiting
                            \<lparr>p_conversationId = currentConversationId,
                             p_content = userMessageContent,
                             p_history = take userMessageIndex updatedMessages,
                             p_language = preferredLanguage,
                             p_signal = controller,
                             p_updatedMessages = updatedMessages\<rparr>
                            s3)"

definition regenerateResponse_resume ::
  "chat_state \<Rightarrow> pending \<Rightarrow> reply \<Rightarrow> string \<Rightarrow> string \<Rightarrow> string \<Rightarrow> chat_state \<Rightarrow> chat_state" where
  "regenerateResponse_resume c p r newId now convTime s =
     finallyBlock c (p_conversationId p)
       (case r of
          Resolved responseMessage \<Rightarrow>
            resolvedBlock c p True responseMessage newId now convTime s
        | Rejected errorName \<Rightarrow>
            catchBlock c (p_conversationId p)
              ''Sorry, I couldn't regenerate a response. Please try again.''
              errorName newId now s)"

definition provideMessageFeedback ::
  "chat_state \<Rightarrow> string \<Rightarrow> bool \<Rightarrow> chat_state \<Rightarrow> chat_state" where
  "provideMessageFeedback c messageId isPositive s =
     (case find (\<lambda>msg. msg_id msg = messageId) (messages c) of
        None \<Rightarrow> s
      | Some messageToRate \<Rightarrow>
          if sender messageToRate \<noteq> ''ai'' then s
          else
            let updatedMessages =
                  map (\<lambda>msg. if msg_id msg = messageId
                              then msg\<lparr>feedback :=
                                         Some (if isPositive then ''positive'' else ''negative'')\<rparr>
                              else msg)
                    (messages c);
                s1 = s\<lparr>messages := updatedMessages\<rparr>
            in case currentUser c of
                 Some uid \<Rightarrow>
                   (case activeConversation c of
                      Some a \<Rightarrow>
                        saveToLocalStorage (messagesKey uid (conv_id a))
                          (Messages updatedMessages) s1
                    | None \<Rightarrow> s1)
               | None \<Rightarrow> s1)"

text \<open>
  \<open>deleteConversation\<close>. \<open>setConversations\<close> is given an updater, applied to the live
  list; the next active conversation and the saved list are computed from the closure's
  \<open>conversations\<close>.
\<close>

definition deleteConversation :: "chat_state \<Rightarrow> string \<Rightarrow> chat_state \<Rightarrow> chat_state" where
  "deleteConversation c conversationId s =
     (let s1 = (case abortController c of
                  Some controller \<Rightarrow>
                    if processingConversationId c = Some conversationId
                    then (abort controller s)
                           \<lparr>abortController := None, processingConversationId := None\<rparr>
                    else s
                | None \<Rightarrow> s);
          s2 = s1\<lparr>conversations :=
                    filter (\<lambda>conv. conv_id conv \<noteq> conversationId) (conversations s1)\<rparr>;
          s3 = (if activeId c = Some conversationId
                then s2\<lparr>activeConversation :=
                          find (\<lambda>conv. conv_id conv \<noteq> conversationId) (conversations c)\<rparr>
                else s2)
      in case currentUser c of
           Some uid \<Rightarrow>
             saveToLocalStorage (conversationsKey uid)
               (Conversations (filter (\<lambda>conv. conv_id conv \<noteq> conversationId) (conversations c)))
               (removeItem (messagesKey uid conversationId) s3)
         | None \<Rightarrow> s3)"

text \<open>
  \<open>deleteAllConversations\<close>. \<open>processingConversationId && abortController\<close> needs a
  non-empty id string and a controller. The \<open>for\<close> loop collects, in slot order, the
  keys that start with the user's id and an underscore; \<open>forEach\<close> then removes them.
\<close>

definition deleteAllConversations ::
  "chat_state \<Rightarrow> string \<Rightarrow> string \<Rightarrow> chat_state \<Rightarrow> chat_state" where
  "deleteAllConversations c newId now s =
     (let s1 = (case processingConversationId c of
                  Some pid \<Rightarrow>
                    (case abortController c of
                       Some controller \<Rightarrow>
                         if pid \<noteq> []
                         then (abort controller s)
                                \<lparr>abortController := None, processingConversationId := None\<rparr>
                         else s
                     | None \<Rightarrow> s)
                | None \<Rightarrow> s);
          s2 = s1\<lparr>conversations := [], activeConversation := None, messages := []\<rparr>
      in case currentUser c of
           Some uid \<Rightarrow>
             let keysToRemove = filter (prefix (uid @ ''_'')) (map fst (localStorage s2));
                 s3 = fold removeItem keysToRemove s2
             in createNewConversation c (Some []) newId now s3
         | None \<Rightarrow> s2)"

section \<open>Sequences of create and delete operations\<close>

text \<open>
  One user action on the conversation list, invoked from the current render (the closure
  is the state itself), followed by the effect run of the render it causes.
\<close>

datatype operation = Create string string | Delete string | DeleteAll string string

definition perform :: "operation \<Rightarrow> chat_state \<Rightarrow> chat_state" where
  "perform op s =
     afterRender s
       (case op of
          Create newId now \<Rightarrow> createNewConversation s None newId now s
        | Delete conversationId \<Rightarrow> deleteConversation s conversationId s
        | DeleteAll newId now \<Rightarrow> deleteAllConversations s newId now s)"

definition pointerValid :: "chat_state \<Rightarrow> bool" where
  "pointerValid s =
     (case activeConversation s of None \<Rightarrow> True | Some a \<Rightarrow> a \<in> set (conversations s))"

section \<open>Values named in the statements\<close>

text \<open>
  The assistant message built after a resolved reply, the error message built by a
  \<open>catch\<close> block, the message list written by \<open>provideMessageFeedback\<close> and the
  conversation built by \<open>createNewConversation\<close>, as the handlers above build them.
\<close>

definition regeneratedMessage :: "string \<Rightarrow> string \<Rightarrow> string \<Rightarrow> string \<Rightarrow> message" where
  "regeneratedMessage newId responseMessage now lang =
     \<lparr>msg_id = newId, content = responseMessage, sender = ''ai'', msg_timestamp = now,
      language = Some lang, feedback = None, isError = False\<rparr>"

definition errorMessageOf :: "string \<Rightarrow> string \<Rightarrow> string \<Rightarrow> message" where
  "errorMessageOf errId apology errTime =
     \<lparr>msg_id = errId, content = apology, sender = ''ai'', msg_timestamp = errTime,
      language = None, feedback = None, isError = True\<rparr>"

definition tagged :: "string \<Rightarrow> bool \<Rightarrow> message list \<Rightarrow> message list" where
  "tagged messageId isPositive ms =
     map (\<lambda>msg. if msg_id msg = messageId
                 then msg\<lparr>feedback := Some (if isPositive then ''positive'' else ''negative'')\<rparr>
                 else msg) ms"


section \<open>Concrete states\<close>

text \<open>
  A signed-in user \<open>u\<close> with two conversations: \<open>a\<close>, empty and active, and \<open>b\<close> with one
  exchange. \<open>sentOnA\<close> is the state after \<open>sendMessage("Hello")\<close> has reached its
  \<open>await\<close>, \<open>switchedToB\<close> the state after the user has then selected \<open>b\<close> and the
  message effect has run.
\<close>

definition convA :: conversation where
  "convA = \<lparr>conv_id = ''a'', title = ''New Conversation'', conv_timestamp = ''t0'',
            userId = Some ''u''\<rparr>"

definition convB :: conversation where
  "convB = \<lparr>conv_id = ''b'', title = ''Ping'', conv_timestamp = ''t0'', userId = Some ''u''\<rparr>"

definition pingMsg :: message where
  "pingMsg = \<lparr>msg_id = ''b1'', content = ''Ping'', sender = ''user'', msg_timestamp = ''t0'',
              language = None, feedback = None, isError = False\<rparr>"

definition pongMsg :: message where
  "pongMsg = \<lparr>msg_id = ''b2'', content = ''Pong'', sender = ''ai'', msg_timestamp = ''t0'',
              language = Some ''en'', feedback = None, isError = False\<rparr>"

definition userHello :: message where
  "userHello = \<lparr>msg_id = ''m1'', content = ''Hello'', sender = ''user'', msg_timestamp = ''t1'',
                language = None, feedback = None, isError = False\<rparr>"

definition replyHi :: message where
  "replyHi = \<lparr>msg_id = ''m2'', content = ''Hi'', sender = ''ai'', msg_timestamp = ''t2'',
              language = Some ''en'', feedback = None, isError = False\<rparr>"

definition onA :: chat_state where
  "onA = \<lparr>messages = [], conversations = [convA, convB], activeConversation = Some convA,
          isLoading = False, lastUserMessage = [], abortController = None,
          processingConversationId = None, currentUser = Some ''u'',
          localStorage =
            [(''u_conversations'', Conversations [convA, convB]),
             (''u_activeConversation'', Text ''a''),
             (''u_messages_b'', Messages [pingMsg, pongMsg])],
          aborted = []\<rparr>"

definition helloPending :: pending where
  "helloPending = \<lparr>p_conversationId = ''a'', p_content = ''Hello'', p_history = [],
                   p_language = ''en'', p_signal = 1, p_updatedMessages = [userHello]\<rparr>"

definition sentOnA :: chat_state where
  "sentOnA = onA
     \<lparr>messages := [userHello],
      conversations := [convA\<lparr>title := ''Hello''\<rparr>, convB],
      activeConversation := Some (convA\<lparr>title := ''Hello''\<rparr>),
      isLoading := True, lastUserMessage := ''Hello'', abortController := Some 1,
      processingConversationId := Some ''a'',
      localStorage :=
        [(''u_conversations'', Conversations [convA\<lparr>title := ''Hello''\<rparr>, convB]),
         (''u_activeConversation'', Text ''a''),
         (''u_messages_b'', Messages [pingMsg, pongMsg]),
         (''u_messages_a'', Messages [userHello])]\<rparr>"

definition switchedToB :: chat_state where
  "switchedToB = sentOnA
     \<lparr>messages := [pingMsg, pongMsg],
      activeConversation := Some convB,
      isLoading := False, lastUserMessage := ''Ping'',
      localStorage :=
        [(''u_conversations'', Conversations [convA\<lparr>title := ''Hello''\<rparr>, convB]),
         (''u_activeConversation'', Text ''b''),
         (''u_messages_b'', Messages [pingMsg, pongMsg]),
         (''u_messages_a'', Messages [userHello])]\<rparr>"

text \<open>
  A signed-in user with no conversation yet, and a conversation whose log holds a lone
  assistant message, persisted as shown.
\<close>

definition signedInIdle :: chat_state where
  "signedInIdle = \<lparr>messages = [], conversations = [], activeConversation = None,
          isLoading = False, lastUserMessage = [], abortController = None,
          processingConversationId = None, currentUser = Some ''u'',
          localStorage = [], aborted = []\<rparr>"

definition strayOnA :: chat_state where
  "strayOnA = onA
     \<lparr>messages := [pongMsg], localStorage := [(''u_messages_a'', Messages [pongMsg])]\<rparr>"

definition regenApology :: message where
  "regenApology =
     errorMessageOf ''e1'' ''Sorry, I couldn't regenerate a response. Please try again.'' ''t9''"

text \<open>
  A second send, \<open>sendMessage("More")\<close> with controller 2, started on \<open>b\<close> from
  \<open>switchedToB\<close> while the send on \<open>a\<close> still awaits its reply: \<open>sentOnB\<close> is the state
  at its \<open>await\<close>. \<open>replyALanded\<close> is the state once the reply for \<open>a\<close> has then
  resolved and the message effect has run; the send on \<open>b\<close> has not settled.
\<close>

definition userMore :: message where
  "userMore = \<lparr>msg_id = ''m3'', content = ''More'', sender = ''user'', msg_timestamp = ''t3'',
               language = None, feedback = None, isError = False\<rparr>"

definition morePending :: pending where
  "morePending = \<lparr>p_conversationId = ''b'', p_content = ''More'',
                  p_history = [pingMsg, pongMsg], p_language = ''en'', p_signal = 2,
                  p_updatedMessages = [pingMsg, pongMsg, userMore]\<rparr>"

definition sentOnB :: chat_state where
  "sentOnB = switchedToB
     \<lparr>messages := [pingMsg, pongMsg, userMore],
      isLoading := True, lastUserMessage := ''More'', abortController := Some 2,
      processingConversationId := Some ''b'',
      localStorage :=
        [(''u_conversations'', Conversations [convA\<lparr>title := ''Hello''\<rparr>, convB]),
         (''u_activeConversation'', Text ''b''),
         (''u_messages_b'', Messages [pingMsg, pongMsg, userMore]),
         (''u_messages_a'', Messages [userHello])]\<rparr>"

definition replyALanded :: chat_state where
  "replyALanded =
     afterRender sentOnB
       (sendMessage_resume onA helloPending (Resolved ''Hi'') ''m2'' ''t2'' ''t4'' sentOnB)"

text \<open>
  \<open>regenerateResponse("b2")\<close> with controller 2, started from \<open>switchedToB\<close>:
  \<open>regenStarted\<close> is the state at its \<open>await\<close>.
\<close>

definition regenPending :: pending where
  "regenPending = \<lparr>p_conversationId = ''b'', p_content = ''Ping'', p_history = [],
                   p_language = ''en'', p_signal = 2, p_updatedMessages = [pingMsg]\<rparr>"

definition regenStarted :: chat_state where
  "regenStarted = switchedToB
     \<lparr>messages := [pingMsg],
      isLoading := True, abortController := Some 2,
      processingConversationId := Some ''b'',
      localStorage :=
        [(''u_conversations'', Conversations [convA\<lparr>title := ''Hello''\<rparr>, convB]),
         (''u_activeConversation'', Text ''b''),
         (''u_messages_b'', Messages [pingMsg]),
         (''u_messages_a'', Messages [userHello])]\<rparr>"

section \<open>Auxiliary facts\<close>

lemmas storage_defs =
  getItem_def setItem_def removeItem_def saveToLocalStorage_def getFromLocalStorage_def
  storedMessagesAt_def

lemmas handler_defs =
  sendMessage_begin_def sendMessage_resume_def regenerateResponse_begin_def
  regenerateResponse_resume_def resolvedBlock_def catchBlock_def finallyBlock_def
  createNewConversation_def updateConversationTitle_def titleOf_def stopResponse_def
  setActiveConversationWithStorage_def loadConversationMessages_def messagesEffect_def
  afterRender_def provideMessageFeedback_def deleteConversation_def
  deleteAllConversations_def preferredLanguageOf_def activeId_def abort_def
  messagesKey_def conversationsKey_def activeConversationKey_def Let_def

lemmas example_defs =
  convA_def convB_def pingMsg_def pongMsg_def userHello_def replyHi_def onA_def
  helloPending_def sentOnA_def switchedToB_def userMore_def morePending_def sentOnB_def
  replyALanded_def regenPending_def regenStarted_def

subsection \<open>Storage\<close>





subsection \<open>Searching the message log\<close>

lemma findIndex_Some:
  "findIndex P xs = Some i \<Longrightarrow> i < length xs \<and> P (xs ! i) \<and> (\<forall>j<i. \<not> P (xs ! j))"
proof (induction xs arbitrary: i)
  case Nil
  then show ?case by simp
next
  case (Cons x xs)
  show ?case
  proof (cases "P x")
    case True
    with Cons.prems show ?thesis by simp
  next
    case False
    with Cons.prems obtain i' where i': "findIndex P xs = Some i'" "i = Suc i'"
      by auto
    from Cons.IH[OF i'(1)] False i'(2) show ?thesis
      by (auto simp: nth_Cons split: nat.splits)
  qed
qed

lemma filter_first_is_last:
  assumes "findIndex P xs = Some i" "Suc i = length xs"
  shows "filter (\<lambda>x. \<not> P x) xs = take i xs"
proof -
  from findIndex_Some[OF assms(1)] have P: "P (xs ! i)" and N: "\<forall>j<i. \<not> P (xs ! j)"
    by auto
  have xs: "xs = take i xs @ [xs ! i]"
    using assms(2) by (metis lessI take_Suc_conv_app_nth take_all order_refl)
  have "\<forall>x \<in> set (take i xs). \<not> P x"
    using N assms(2) by (auto simp: in_set_conv_nth)
  then have "filter (\<lambda>x. \<not> P x) (take i xs) = take i xs"
    by (simp add: filter_id_conv)
  then have "filter (\<lambda>x. \<not> P x) (take i xs @ [xs ! i]) = take i xs"
    using P by simp
  with xs show ?thesis by metis
qed

lemma userMessageBefore_None:
  "userMessageBefore ms n = None \<longleftrightarrow> (\<forall>j<n. sender (ms ! j) \<noteq> ''user'')"
  by (induction n) (auto simp: less_Suc_eq)

subsection \<open>The blocks shared by the two asynchronous handlers\<close>

lemma resolvedBlock_messages:
  "activeId c = Some (p_conversationId p) \<Longrightarrow>
   messages (resolvedBlock c p b r newId now convTime s)
     = p_updatedMessages p @ [regeneratedMessage newId r now (p_language p)]"
  by (simp add: resolvedBlock_def Let_def regeneratedMessage_def storage_defs
           split: option.splits)

lemma resolvedBlock_stored:
  "currentUser c = Some uid \<Longrightarrow>
   storedMessagesAt (messagesKey uid (p_conversationId p))
       (resolvedBlock c p b r newId now convTime s)
     = p_updatedMessages p @ [regeneratedMessage newId r now (p_language p)]"
  by (simp add: resolvedBlock_def Let_def regeneratedMessage_def storage_defs update_conv')

lemma finallyBlock_frame:
  "messages (finallyBlock c k s) = messages s"
  "localStorage (finallyBlock c k s) = localStorage s"
  "conversations (finallyBlock c k s) = conversations s"
  "activeConversation (finallyBlock c k s) = activeConversation s"
  "processingConversationId (finallyBlock c k s) = None"
  "abortController (finallyBlock c k s) = None"
  "aborted (finallyBlock c k s) = aborted s"
  by (simp_all add: finallyBlock_def Let_def)

lemma finallyBlock_stored:
  "storedMessagesAt key (finallyBlock c k s) = storedMessagesAt key s"
  by (simp add: storage_defs finallyBlock_frame)

text \<open>
  The guard \<open>activeConversation?.id === currentConversationId\<close> compares the closure's
  active conversation with a constant computed from that same binding: whenever
  \<open>sendMessage\<close> reaches its \<open>await\<close>, the guard holds in its continuation, whatever
  conversation is active by then.
\<close>

lemma sendMessage_guard_holds:
  "sendMessage_begin c userText newConvId newConvTime controller msgId msgTime s = Awaiting p s1
   \<Longrightarrow> activeId c = Some (p_conversationId p)"
  by (auto simp: sendMessage_begin_def Let_def activeId_def split: option.splits)

lemma regenerate_begin_awaits:
  assumes found: "findIndex (\<lambda>msg. msg_id msg = messageId) (messages c) = Some i"
    and ai: "sender (messages c ! i) = ''ai''"
    and user: "\<exists>j<i. sender (messages c ! j) = ''user''"
    and active: "activeConversation c = Some a"
  shows "\<exists>p s1. regenerateResponse_begin c messageId controller errId errTime s = Awaiting p s1
           \<and> p_conversationId p = conv_id a
           \<and> p_updatedMessages p = take i (messages c)
           \<and> messages s1 = take i (messages c)
           \<and> (\<forall>uid. currentUser c = Some uid \<longrightarrow>
                 storedMessagesAt (messagesKey uid (conv_id a)) s1 = take i (messages c))"
proof -
  from user obtain j where "userMessageBefore (messages c) i = Some j"
    using userMessageBefore_None[of "messages c" i] by (cases "userMessageBefore (messages c) i") auto
  moreover from findIndex_Some[OF found] have lt: "i < length (messages c)" by simp
  moreover have "\<not> int i < int (length (messages c)) - 1 \<Longrightarrow>
      filter (\<lambda>msg. msg_id msg \<noteq> messageId) (messages c) = take i (messages c)"
    using filter_first_is_last[OF found] lt by (simp add: Suc_leI le_antisym)
  ultimately show ?thesis
    using found ai active
    by (simp add: regenerateResponse_begin_def Let_def activeId_def storage_defs update_conv'
             split: option.splits)
qed

subsection \<open>Deleting\<close>

lemma afterRender_frame:
  "conversations (afterRender prev s) = conversations s"
  "activeConversation (afterRender prev s) = activeConversation s"
  by (simp_all add: afterRender_def messagesEffect_def loadConversationMessages_def Let_def
        split: option.splits)

lemma pointerValid_afterRender: "pointerValid (afterRender prev s) = pointerValid s"
  by (simp add: pointerValid_def afterRender_frame split: option.splits)

lemma pointerValid_create: "pointerValid (createNewConversation c base newId now s)"
  by (simp add: pointerValid_def createNewConversation_def Let_def storage_defs
        split: option.splits)

lemma find_in_filter: "find P xs = Some x \<Longrightarrow> x \<in> set (filter P xs)"
  by (induction xs) (auto split: if_splits)

lemma pointerValid_delete:
  assumes "pointerValid s"
  shows "pointerValid (deleteConversation s conversationId s)"
proof (cases "activeConversation s")
  case None
  then show ?thesis
    by (simp add: pointerValid_def deleteConversation_def Let_def storage_defs activeId_def
          abort_def split: option.splits)
next
  case (Some a)
  with assms have mem: "a \<in> set (conversations s)" by (simp add: pointerValid_def)
  show ?thesis
  proof (cases "conv_id a = conversationId")
    case True
    then show ?thesis
      using Some find_in_filter[of "\<lambda>conv. conv_id conv \<noteq> conversationId" "conversations s"]
      by (auto simp: pointerValid_def deleteConversation_def Let_def storage_defs activeId_def
            abort_def split: option.splits)
  next
    case False
    then show ?thesis
      using Some mem
      by (auto simp: pointerValid_def deleteConversation_def Let_def storage_defs activeId_def
            abort_def split: option.splits)
  qed
qed

lemma pointerValid_deleteAll: "pointerValid (deleteAllConversations c newId now s)"
  by (simp add: deleteAllConversations_def Let_def pointerValid_create split: option.splits)
     (simp add: pointerValid_def)

lemma pointerValid_perform: "pointerValid s \<Longrightarrow> pointerValid (perform op s)"
  by (cases op)
     (simp_all add: perform_def pointerValid_afterRender pointerValid_create pointerValid_delete
        pointerValid_deleteAll)





section \<open>The claims\<close>

text \<open>
  C1. A send is started while conversation \<open>a\<close> is active, the user switches to \<open>b\<close>,
  and the reply then resolves. The reply is appended to the log persisted under \<open>a\<close>'s
  message key. The visible log, which shows \<open>b\<close>, is not left alone: the continuation's
  guard holds (\<open>sendMessage_guard_holds\<close>) and \<open>setMessages(finalMessages)\<close> puts
  \<open>a\<close>'s messages on display while \<open>b\<close> is the active conversation.
\<close>

theorem reply_after_switch_overwrites_visible_log:
  "sendMessage_begin onA ''Hello'' ''n'' ''t1'' 1 ''m1'' ''t1'' onA = Awaiting helloPending sentOnA
   \<and> afterRender onA sentOnA = sentOnA
   \<and> afterRender sentOnA (setActiveConversationWithStorage sentOnA convB sentOnA) = switchedToB
   \<and> activeId onA = Some (p_conversationId helloPending)
   \<and> activeConversation switchedToB = Some convB
   \<and> messages switchedToB = [pingMsg, pongMsg]
   \<and> activeConversation
        (sendMessage_resume onA helloPending (Resolved ''Hi'') ''m2'' ''t2'' ''t3'' switchedToB)
       = Some convB
   \<and> storedMessagesAt (messagesKey ''u'' ''a'')
        (sendMessage_resume onA helloPending (Resolved ''Hi'') ''m2'' ''t2'' ''t3'' switchedToB)
       = [userHello, replyHi]
   \<and> messages
        (sendMessage_resume onA helloPending (Resolved ''Hi'') ''m2'' ''t2'' ''t3'' switchedToB)
       = [userHello, replyHi]"
  by (simp add: handler_defs storage_defs example_defs)

text \<open>
  The continuation also clears \<open>processingConversationId\<close>, a dependency of the message
  effect; the effect run of the following render reloads \<open>b\<close>'s persisted log.
\<close>

lemma reply_after_switch_then_effect:
  "messages
     (afterRender switchedToB
        (sendMessage_resume onA helloPending (Resolved ''Hi'') ''m2'' ''t2'' ''t3'' switchedToB))
     = [pingMsg, pongMsg]"
  by (simp add: handler_defs storage_defs example_defs)

text \<open>
  C2, as the code has it. Stop signals cancellation on the recorded handle and clears the
  loading indicator, the handle and the processing marker at once, leaving the message
  log and the storage alone. When the awaited reply then rejects with the cancellation
  error, named \<open>AbortError\<close>, the continuation of \<open>sendMessage\<close> or of
  \<open>regenerateResponse\<close> appends nothing: visible log and storage are as they were
  before Stop.
\<close>

theorem stop_then_cancellation_error:
  assumes "abortController c' = Some controller"
  shows "controller \<in> set (aborted (stopResponse c' s))
       \<and> \<not> isLoading (stopResponse c' s)
       \<and> abortController (stopResponse c' s) = None
       \<and> processingConversationId (stopResponse c' s) = None
       \<and> messages (sendMessage_resume c p (Rejected ''AbortError'') newId now convTime
                     (stopResponse c' s)) = messages s
       \<and> localStorage (sendMessage_resume c p (Rejected ''AbortError'') newId now convTime
                     (stopResponse c' s)) = localStorage s
       \<and> messages (regenerateResponse_resume c p (Rejected ''AbortError'') newId now convTime
                     (stopResponse c' s)) = messages s
       \<and> localStorage (regenerateResponse_resume c p (Rejected ''AbortError'') newId now convTime
                     (stopResponse c' s)) = localStorage s"
  using assms
  by (simp add: stopResponse_def abort_def sendMessage_resume_def regenerateResponse_resume_def
        catchBlock_def finallyBlock_frame)

theorem stop_then_cancellation_error_witness:
  "abortController sentOnA = Some 1
   \<and> 1 \<in> set (aborted (stopResponse sentOnA sentOnA))
   \<and> messages (sendMessage_resume onA helloPending (Rejected ''AbortError'') ''m2'' ''t2'' ''t3''
                 (stopResponse sentOnA sentOnA)) = [userHello]
   \<and> storedMessagesAt (messagesKey ''u'' ''a'')
        (sendMessage_resume onA helloPending (Rejected ''AbortError'') ''m2'' ''t2'' ''t3''
                 (stopResponse sentOnA sentOnA)) = [userHello]"
proof -
  have h: "abortController sentOnA = Some 1" by (simp add: example_defs)
  have m: "messages sentOnA = [userHello]"
    "storedMessagesAt (messagesKey ''u'' ''a'') sentOnA = [userHello]"
    by (simp_all add: example_defs storage_defs messagesKey_def)
  from stop_then_cancellation_error[OF h,
      of sentOnA onA helloPending "''m2''" "''t2''" "''t3''"] h m
  show ?thesis by (simp add: storage_defs)
qed

text \<open>
  C2 as stated fails when the reply resolves after Stop: the continuation does not
  consult the signal, and the assistant reply is appended to the visible and to the
  persisted log.
\<close>

theorem stop_then_reply_resolves:
  "sendMessage_begin onA ''Hello'' ''n'' ''t1'' 1 ''m1'' ''t1'' onA = Awaiting helloPending sentOnA
   \<and> p_signal helloPending \<in> set (aborted (stopResponse sentOnA sentOnA))
   \<and> messages (stopResponse sentOnA sentOnA) = [userHello]
   \<and> storedMessagesAt (messagesKey ''u'' ''a'') (stopResponse sentOnA sentOnA) = [userHello]
   \<and> messages
        (sendMessage_resume onA helloPending (Resolved ''Hi'') ''m2'' ''t2'' ''t3''
           (afterRender sentOnA (stopResponse sentOnA sentOnA)))
       = [userHello, replyHi]
   \<and> storedMessagesAt (messagesKey ''u'' ''a'')
        (sendMessage_resume onA helloPending (Resolved ''Hi'') ''m2'' ''t2'' ''t3''
           (afterRender sentOnA (stopResponse sentOnA sentOnA)))
       = [userHello, replyHi]"
  by (simp add: handler_defs storage_defs example_defs)

text \<open>
  C3, as the code has it. Let \<open>messageId\<close> identify an assistant message at index \<open>i\<close> of
  the visible log, with a user message somewhere before it, in the active conversation.
  Then \<open>regenerateResponse\<close> reaches its \<open>await\<close> with the log cut to the first \<open>i\<close>
  messages, which is the log without its last message when \<open>i\<close> is the last index; and
  when the reply resolves, the visible log, and for a signed-in user the persisted log,
  is those first \<open>i\<close> messages, untouched, followed by exactly one new assistant message.
\<close>

theorem regenerate_truncates_and_appends:
  assumes found: "findIndex (\<lambda>msg. msg_id msg = messageId) (messages c) = Some i"
    and ai: "sender (messages c ! i) = ''ai''"
    and user: "\<exists>j<i. sender (messages c ! j) = ''user''"
    and active: "activeConversation c = Some a"
  shows "\<exists>p s1. regenerateResponse_begin c messageId controller errId errTime s = Awaiting p s1
           \<and> messages s1 = take i (messages c)
           \<and> (Suc i = length (messages c) \<longrightarrow> take i (messages c) = butlast (messages c))
           \<and> (\<forall>s2. messages (regenerateResponse_resume c p (Resolved r) newId now convTime s2)
                      = take i (messages c) @ [regeneratedMessage newId r now (p_language p)])
           \<and> (\<forall>s2 uid. currentUser c = Some uid \<longrightarrow>
                 storedMessagesAt (messagesKey uid (conv_id a))
                     (regenerateResponse_resume c p (Resolved r) newId now convTime s2)
                   = take i (messages c) @ [regeneratedMessage newId r now (p_language p)])"
proof -
  from regenerate_begin_awaits[OF found ai user active, of controller errId errTime s]
  obtain p s1 where b: "regenerateResponse_begin c messageId controller errId errTime s = Awaiting p s1"
    and pc: "p_conversationId p = conv_id a"
    and pu: "p_updatedMessages p = take i (messages c)"
    and m1: "messages s1 = take i (messages c)"
    by blast
  have act: "activeId c = Some (p_conversationId p)"
    using active pc by (simp add: activeId_def)
  have v: "messages (regenerateResponse_resume c p (Resolved r) newId now convTime s2)
             = take i (messages c) @ [regeneratedMessage newId r now (p_language p)]" for s2
    by (simp add: regenerateResponse_resume_def finallyBlock_frame resolvedBlock_messages[OF act] pu)
  have st: "storedMessagesAt (messagesKey uid (conv_id a))
                (regenerateResponse_resume c p (Resolved r) newId now convTime s2)
              = take i (messages c) @ [regeneratedMessage newId r now (p_language p)]"
    if "currentUser c = Some uid" for s2 uid
    using resolvedBlock_stored[OF that, of p] 
    by (simp add: regenerateResponse_resume_def finallyBlock_stored pu pc)
  have bl: "Suc i = length (messages c) \<longrightarrow> take i (messages c) = butlast (messages c)"
  proof
    assume "Suc i = length (messages c)"
    then have "i = length (messages c) - 1" by simp
    then show "take i (messages c) = butlast (messages c)"
      by (simp only: butlast_conv_take)
  qed
  from b m1 v st bl show ?thesis by blast
qed

theorem regenerate_truncates_and_appends_witness:
  "findIndex (\<lambda>msg. msg_id msg = ''b2'') (messages switchedToB) = Some 1
   \<and> sender (messages switchedToB ! 1) = ''ai''
   \<and> (\<exists>j<1. sender (messages switchedToB ! j) = ''user'')
   \<and> activeConversation switchedToB = Some convB
   \<and> (\<exists>p s1. regenerateResponse_begin switchedToB ''b2'' 2 ''e1'' ''t9'' switchedToB
                 = Awaiting p s1
         \<and> messages s1 = [pingMsg]
         \<and> messages (regenerateResponse_resume switchedToB p (Resolved ''Pong again'')
                        ''b3'' ''t4'' ''t5'' s1)
             = [pingMsg, regeneratedMessage ''b3'' ''Pong again'' ''t4'' (p_language p)])"
proof -
  have h1: "findIndex (\<lambda>msg. msg_id msg = ''b2'') (messages switchedToB) = Some 1"
    by (simp add: example_defs)
  have h2: "sender (messages switchedToB ! 1) = ''ai''"
    by (simp add: example_defs)
  have h3: "\<exists>j<1. sender (messages switchedToB ! j) = ''user''"
    by (simp add: example_defs)
  have h4: "activeConversation switchedToB = Some convB"
    by (simp add: example_defs)
  have tk: "take 1 (messages switchedToB) = [pingMsg]"
    by (simp add: example_defs)
  from regenerate_truncates_and_appends[OF h1 h2 h3 h4,
      of 2 "''e1''" "''t9''" switchedToB "''Pong again''" "''b3''" "''t4''" "''t5''"]
  obtain p s1 where
    "regenerateResponse_begin switchedToB ''b2'' 2 ''e1'' ''t9'' switchedToB = Awaiting p s1"
    "messages s1 = take 1 (messages switchedToB)"
    "\<forall>s2. messages (regenerateResponse_resume switchedToB p (Resolved ''Pong again'')
                        ''b3'' ''t4'' ''t5'' s2)
             = take 1 (messages switchedToB)
               @ [regeneratedMessage ''b3'' ''Pong again'' ''t4'' (p_language p)]"
    by blast
  with tk h1 h2 h3 h4 show ?thesis by auto
qed

text \<open>
  C3 as stated, for every log and every assistant message in it, fails twice. On a log
  holding a lone assistant message, which is its last message, the handler removes
  nothing and appends an apology. And when the awaited reply of a regeneration of the
  last message rejects with \<open>AbortError\<close>, the message has been removed and nothing is
  appended, in the visible log and in the persisted one.
\<close>

theorem regenerate_not_always_replaced:
  "findIndex (\<lambda>msg. msg_id msg = ''b2'') (messages strayOnA) = Some 0
   \<and> sender (messages strayOnA ! 0) = ''ai''
   \<and> length (messages strayOnA) = 1
   \<and> regenerateResponse_begin strayOnA ''b2'' 2 ''e2'' ''t8'' strayOnA
       = Returned (strayOnA
           \<lparr>messages :=
              [pongMsg,
               errorMessageOf ''e2''
                 ''Sorry, I couldn't regenerate a response. Please try again.'' ''t8''],
            localStorage :=
              [(''u_messages_a'',
                Messages
                  [pongMsg,
                   errorMessageOf ''e2''
                     ''Sorry, I couldn't regenerate a response. Please try again.'' ''t8''])]\<rparr>)
   \<and> findIndex (\<lambda>msg. msg_id msg = ''b2'') (messages switchedToB) = Some 1
   \<and> sender (messages switchedToB ! 1) = ''ai''
   \<and> length (messages switchedToB) = 2
   \<and> regenerateResponse_begin switchedToB ''b2'' 2 ''e1'' ''t9'' switchedToB
       = Awaiting regenPending regenStarted
   \<and> messages
        (regenerateResponse_resume switchedToB regenPending (Rejected ''AbortError'')
           ''b3'' ''t4'' ''t5'' regenStarted)
       = [pingMsg]
   \<and> storedMessagesAt (messagesKey ''u'' ''b'')
        (regenerateResponse_resume switchedToB regenPending (Rejected ''AbortError'')
           ''b3'' ''t4'' ''t5'' regenStarted)
       = [pingMsg]"
  by (simp add: handler_defs storage_defs example_defs strayOnA_def errorMessageOf_def)

text \<open>
  C4, as the code has it. When \<open>messageId\<close> identifies an assistant message with no user
  message before it, the \<open>throw\<close> is caught by the handler's own \<open>catch\<close>: the handler
  returns normally. For a signed-in user an error message from the assistant is appended
  to the conversation's persisted log and the visible log becomes that persisted log;
  the other storage slots, the conversation list and the active conversation are
  unchanged, and the processing marker, the handle and the loading indicator end cleared.
\<close>

theorem regenerate_without_user_message:
  assumes found: "findIndex (\<lambda>msg. msg_id msg = messageId) (messages c) = Some i"
    and ai: "sender (messages c ! i) = ''ai''"
    and nouser: "\<forall>j<i. sender (messages c ! j) \<noteq> ''user''"
    and active: "activeConversation c = Some a"
    and user: "currentUser c = Some uid"
  shows "\<exists>s'. regenerateResponse_begin c messageId controller errId errTime s = Returned s'
           \<and> storedMessagesAt (messagesKey uid (conv_id a)) s'
               = storedMessagesAt (messagesKey uid (conv_id a)) s
                 @ [errorMessageOf errId
                      ''Sorry, I couldn't regenerate a response. Please try again.'' errTime]
           \<and> messages s' = storedMessagesAt (messagesKey uid (conv_id a)) s'
           \<and> (\<forall>k. k \<noteq> messagesKey uid (conv_id a) \<longrightarrow> getItem k s' = getItem k s)
           \<and> conversations s' = conversations s
           \<and> activeConversation s' = activeConversation s
           \<and> processingConversationId s' = None
           \<and> abortController s' = None
           \<and> \<not> isLoading s'"
proof -
  from nouser have "userMessageBefore (messages c) i = None"
    by (simp add: userMessageBefore_None)
  then show ?thesis
    using found ai active user
    by (simp add: regenerateResponse_begin_def catchBlock_def finallyBlock_def Let_def
          activeId_def storage_defs errorMessageOf_def update_conv')
qed

theorem regenerate_without_user_message_witness:
  "findIndex (\<lambda>msg. msg_id msg = ''b2'') (messages strayOnA) = Some 0
   \<and> sender (messages strayOnA ! 0) = ''ai''
   \<and> userMessageBefore (messages strayOnA) 0 = None
   \<and> activeConversation strayOnA = Some convA
   \<and> currentUser strayOnA = Some ''u''
   \<and> (\<exists>s'. regenerateResponse_begin strayOnA ''b2'' 1 ''e1'' ''t9'' strayOnA = Returned s'
         \<and> messages s' = [pongMsg, regenApology]
         \<and> conversations s' = [convA, convB])"
proof -
  have h1: "findIndex (\<lambda>msg. msg_id msg = ''b2'') (messages strayOnA) = Some 0"
    by (simp add: example_defs strayOnA_def)
  have h2: "sender (messages strayOnA ! 0) = ''ai''"
    by (simp add: example_defs strayOnA_def)
  have h3: "\<forall>j<0. sender (messages strayOnA ! j) \<noteq> ''user''"
    by simp
  have h4: "activeConversation strayOnA = Some convA"
    by (simp add: example_defs strayOnA_def)
  have h5: "currentUser strayOnA = Some ''u''"
    by (simp add: example_defs strayOnA_def)
  have st: "storedMessagesAt (messagesKey ''u'' (conv_id convA)) strayOnA = [pongMsg]"
    by (simp add: example_defs strayOnA_def storage_defs messagesKey_def)
  have cs: "conversations strayOnA = [convA, convB]"
    by (simp add: example_defs strayOnA_def)
  from regenerate_without_user_message[OF h1 h2 h3 h4 h5, of 1 "''e1''" "''t9''" strayOnA]
  obtain s' where
    "regenerateResponse_begin strayOnA ''b2'' 1 ''e1'' ''t9'' strayOnA = Returned s'"
    "storedMessagesAt (messagesKey ''u'' (conv_id convA)) s'
       = storedMessagesAt (messagesKey ''u'' (conv_id convA)) strayOnA
         @ [errorMessageOf ''e1''
              ''Sorry, I couldn't regenerate a response. Please try again.'' ''t9'']"
    "messages s' = storedMessagesAt (messagesKey ''u'' (conv_id convA)) s'"
    "conversations s' = conversations strayOnA"
    by blast
  with st cs h1 h2 h4 h5 show ?thesis
    by (auto simp: regenApology_def)
qed

text \<open>
  C4 as stated fails on a log holding a lone assistant message: the handler returns
  normally instead of reporting a failure, and both the visible log and the persisted
  log have grown by the error message.
\<close>

theorem regenerate_without_user_message_mutates:
  "findIndex (\<lambda>msg. msg_id msg = ''b2'') (messages strayOnA) = Some 0
   \<and> sender (messages strayOnA ! 0) = ''ai''
   \<and> regenerateResponse_begin strayOnA ''b2'' 1 ''e1'' ''t9'' strayOnA
       = Returned (strayOnA
           \<lparr>messages := [pongMsg, regenApology],
            localStorage := [(''u_messages_a'', Messages [pongMsg, regenApology])]\<rparr>)
   \<and> messages strayOnA = [pongMsg]
   \<and> localStorage strayOnA = [(''u_messages_a'', Messages [pongMsg])]"
  by (simp add: handler_defs storage_defs example_defs strayOnA_def regenApology_def
        errorMessageOf_def)

text \<open>
  C5. Along every sequence of create, delete and delete-all operations, the active
  conversation is either none or a member of the conversation list.
\<close>

theorem active_pointer_in_store:
  "pointerValid s \<Longrightarrow> pointerValid (fold perform ops s)"
  by (induction ops arbitrary: s) (simp_all add: pointerValid_perform)

theorem active_pointer_in_store_witness:
  "pointerValid onA
   \<and> pointerValid
       (fold perform [Create ''n1'' ''t1'', Delete ''n1'', Delete ''a'', DeleteAll ''n2'' ''t2''] onA)"
proof -
  have h: "pointerValid onA" by (simp add: pointerValid_def example_defs)
  from h active_pointer_in_store[OF h,
      of "[Create ''n1'' ''t1'', Delete ''n1'', Delete ''a'', DeleteAll ''n2'' ''t2'']"]
  show ?thesis by (rule conjI)
qed

text \<open>
  C6. \<open>sendMessage("Hello")\<close> with no active conversation: \<open>createNewConversation()\<close>
  runs and makes a new conversation active for the next render, but the handler then
  reads \<open>activeConversation.id\<close> from its own binding, still \<open>null\<close>, and throws a
  TypeError. No user message is appended or persisted under the new conversation's key.
\<close>

theorem send_without_active_conversation_throws:
  "activeConversation signedInIdle = None
   \<and> sendMessage_begin signedInIdle ''Hello'' ''n'' ''t1'' 1 ''m1'' ''t1'' signedInIdle
       = Threw TypeError (createNewConversation signedInIdle None ''n'' ''t1'' signedInIdle)
   \<and> activeId (createNewConversation signedInIdle None ''n'' ''t1'' signedInIdle) = Some ''n''
   \<and> getItem (messagesKey ''u'' ''n'')
        (createNewConversation signedInIdle None ''n'' ''t1'' signedInIdle) = None
   \<and> messages (createNewConversation signedInIdle None ''n'' ''t1'' signedInIdle) = []"
  by (simp add: handler_defs storage_defs signedInIdle_def)




text \<open>
  C8. The title derived from a text of at most 30 characters is the text; from a longer
  text it is the first 30 characters followed by three dots. \<open>updateConversationTitle\<close>
  gives this title to the conversations with the given id and leaves the other titles.
\<close>

theorem title_derivation:
  "(length txt \<le> 30 \<longrightarrow> titleOf txt = txt)
   \<and> (30 < length txt \<longrightarrow> titleOf txt = take 30 txt @ ''...'')
   \<and> map title (conversations (updateConversationTitle c k txt s))
       = map (\<lambda>conv. if conv_id conv = k then titleOf txt else title conv) (conversations c)"
  by (simp add: titleOf_def updateConversationTitle_def Let_def storage_defs
           split: option.splits)

theorem title_derivation_witness:
  "length ''Hello'' \<le> 30 \<and> titleOf ''Hello'' = ''Hello''
   \<and> 30 < length ''Please summarise the attached quarterly report''
   \<and> titleOf ''Please summarise the attached quarterly report''
       = ''Please summarise the attached ...''
   \<and> map title (conversations (updateConversationTitle onA ''a'' ''Hello'' onA))
       = [''Hello'', ''Ping'']"
  using title_derivation[of "''Hello''" onA "''a''" onA]
    title_derivation[of "''Please summarise the attached quarterly report''" onA "''a''" onA]
  by (simp add: example_defs)

text \<open>
  C9. \<open>provideMessageFeedback\<close> changes nothing when no message of the visible log has
  the id, or when the message with that id is not from the assistant. Otherwise, with a
  signed-in user and an active conversation, the visible log and the log persisted under
  the active conversation's key both become the log with the feedback tag set on that
  message, and loading the conversation again brings the tagged log back.
\<close>

theorem feedback_set_and_persisted:
  "(find (\<lambda>msg. msg_id msg = messageId) (messages c) = None
      \<longrightarrow> provideMessageFeedback c messageId isPositive s = s)
   \<and> (\<forall>m. find (\<lambda>msg. msg_id msg = messageId) (messages c) = Some m \<and> sender m \<noteq> ''ai''
      \<longrightarrow> provideMessageFeedback c messageId isPositive s = s)
   \<and> (\<forall>m uid a. find (\<lambda>msg. msg_id msg = messageId) (messages c) = Some m \<and> sender m = ''ai''
          \<and> currentUser c = Some uid \<and> activeConversation c = Some a
      \<longrightarrow> messages (provideMessageFeedback c messageId isPositive s)
            = tagged messageId isPositive (messages c)
        \<and> storedMessagesAt (messagesKey uid (conv_id a))
              (provideMessageFeedback c messageId isPositive s)
            = tagged messageId isPositive (messages c)
        \<and> messages (loadConversationMessages c (conv_id a)
              ((provideMessageFeedback c messageId isPositive s)\<lparr>messages := []\<rparr>))
            = tagged messageId isPositive (messages c)
        \<and> (\<forall>n < length (messages c). msg_id (messages c ! n) = messageId \<longrightarrow>
              feedback (tagged messageId isPositive (messages c) ! n)
                = Some (if isPositive then ''positive'' else ''negative'')))"
  by (auto simp: provideMessageFeedback_def loadConversationMessages_def tagged_def Let_def
        storage_defs update_conv')

theorem feedback_set_and_persisted_witness:
  "find (\<lambda>msg. msg_id msg = ''b2'') (messages switchedToB) = Some pongMsg
   \<and> sender pongMsg = ''ai''
   \<and> currentUser switchedToB = Some ''u'' \<and> activeConversation switchedToB = Some convB
   \<and> messages (provideMessageFeedback switchedToB ''b2'' True switchedToB)
       = [pingMsg, pongMsg\<lparr>feedback := Some ''positive''\<rparr>]
   \<and> storedMessagesAt (messagesKey ''u'' ''b'')
        (provideMessageFeedback switchedToB ''b2'' True switchedToB)
       = [pingMsg, pongMsg\<lparr>feedback := Some ''positive''\<rparr>]
   \<and> find (\<lambda>msg. msg_id msg = ''b1'') (messages switchedToB) = Some pingMsg
   \<and> sender pingMsg \<noteq> ''ai''
   \<and> provideMessageFeedback switchedToB ''b1'' True switchedToB = switchedToB
   \<and> find (\<lambda>msg. msg_id msg = ''zz'') (messages switchedToB) = None
   \<and> provideMessageFeedback switchedToB ''zz'' True switchedToB = switchedToB"
proof -
  have f: "find (\<lambda>msg. msg_id msg = ''b2'') (messages switchedToB) = Some pongMsg"
    "sender pongMsg = ''ai''"
    "currentUser switchedToB = Some ''u''" "activeConversation switchedToB = Some convB"
    "find (\<lambda>msg. msg_id msg = ''b1'') (messages switchedToB) = Some pingMsg"
    "sender pingMsg \<noteq> ''ai''"
    "find (\<lambda>msg. msg_id msg = ''zz'') (messages switchedToB) = None"
    by (simp_all add: example_defs)
  have t: "tagged ''b2'' True (messages switchedToB)
             = [pingMsg, pongMsg\<lparr>feedback := Some ''positive''\<rparr>]"
    "conv_id convB = ''b''"
    by (simp_all add: tagged_def example_defs)
  from feedback_set_and_persisted[of "''b2''" switchedToB True switchedToB]
    feedback_set_and_persisted[of "''b1''" switchedToB True switchedToB]
    feedback_set_and_persisted[of "''zz''" switchedToB True switchedToB]
    f t
  show ?thesis by auto
qed

text \<open>
  C10. \<open>stopResponse\<close> with no abort controller recorded leaves the whole state, storage
  included, as it was.
\<close>

theorem stopResponse_without_request:
  "abortController c = None \<Longrightarrow> stopResponse c s = s"
  by (simp add: stopResponse_def)

theorem stopResponse_without_request_witness:
  "abortController onA = None \<and> stopResponse onA onA = onA"
proof -
  have h: "abortController onA = None" by (simp add: onA_def)
  from h stopResponse_without_request[OF h, of onA] show ?thesis by simp
qed

end
